theory Spec2Isabelle
  imports Main
begin

text \<open>
  A model of the messaging core of sylvia-iot-node: the AMQP and MQTT connections and
  queues of general-mq, and the connection pool, the data-queue factory and the network
  manager of the SDK, with the properties of their specification that the code decides.
  Objects are records, mutation is state passing, a throw is the left summand of a sum,
  and what a method hands to the event loop, to the raw client or to its listeners is
  returned as a list of effects.
\<close>

section \<open>Constants (general-mq/lib/constants.js, sdk/mq/constants.js)\<close>

text \<open>
  The two status enumerations are JavaScript symbols in the source; here they are
  datatypes. Every \<^verbatim>\<open>throw Error(msg)\<close> of the source is the value \<open>Error msg\<close>;
  \<open>TypeError\<close> is what the JavaScript runtime itself raises (a property access on
  \<^verbatim>\<open>null\<close>, a property creation on a primitive in strict mode, a rejected
  \<^verbatim>\<open>Buffer.from\<close> argument).
\<close>

datatype Status = Closing | Closed | Connecting | Connected | Disconnected

datatype MgrStatus = NotReady | Ready

datatype js_error = Error string | TypeError

definition Errors_NoMsgHandler :: string where
  "Errors_NoMsgHandler = ''no message handler''"

definition Errors_NotConnected :: string where
  "Errors_NotConnected = ''not connected''"

definition Errors_QueueIsReceiver :: string where
  "Errors_QueueIsReceiver = ''this queue is a receiver''"

text \<open>
  The argument of a node-style completion callback: \<open>None\<close> is \<^verbatim>\<open>null\<close>,
  \<open>Some e\<close> an error object.
\<close>

type_synonym js_err = "js_error option"

subsection \<open>QueuePattern\<close>

text \<open>
  \<^verbatim>\<open>QueuePattern: /^[a-z0-9_-]+([\.]{1}[a-z0-9_-]+)*$/\<close>: one or more non-empty
  segments of lower-case letters, digits, underscore and hyphen, separated by single dots.
  The flag of \<open>QueuePattern_seg\<close> tells whether the current segment already holds a
  character.
\<close>

definition name_char :: "char \<Rightarrow> bool" where
  "name_char c = (c \<in> set ''abcdefghijklmnopqrstuvwxyz0123456789_-'')"

fun QueuePattern_seg :: "bool \<Rightarrow> string \<Rightarrow> bool" where
  "QueuePattern_seg seen [] = seen"
| "QueuePattern_seg seen (c # cs) =
     (if name_char c then QueuePattern_seg True cs
      else if c = CHR ''.'' \<and> seen then QueuePattern_seg False cs
      else False)"

definition QueuePattern_test :: "string \<Rightarrow> bool" where
  "QueuePattern_test s = QueuePattern_seg False s"

text \<open>
  The message of the queue constructors for a name outside the pattern; the pattern in it
  holds one backslash, the character \<open>0x5C\<close>.
\<close>

definition name_pattern_message :: string where
  "name_pattern_message =
     ''`name` is not match pattern `^[a-z0-9_-]+(['' @ [CHR 0x5C] @ ''.]{1}[a-z0-9_-]+)*$`''"

text \<open>\<^verbatim>\<open>topic.endsWith(name)\<close>\<close>

definition endsWith :: "string \<Rightarrow> string \<Rightarrow> bool" where
  "endsWith s t = (length t \<le> length s \<and> drop (length s - length t) s = t)"

subsection \<open>JavaScript values of option fields\<close>

text \<open>
  The option records of the source are untyped objects, and the validators test their
  fields with \<^verbatim>\<open>typeof\<close>, \<^verbatim>\<open>Number.isInteger\<close> and truthiness. A field
  is therefore a \<open>jsval\<close>. A number is \<open>JInt n\<close> when \<^verbatim>\<open>Number.isInteger\<close>
  holds of it, \<open>JNaN\<close> for NaN, and \<open>JFrac\<close> for every other number (a fraction or an
  infinity). \<open>JObject\<close> stands for any non-null object, array or function.
\<close>

datatype jsval =
  JUndefined | JNull | JBool bool | JInt int | JFrac | JNaN | JStr string | JObject

fun truthy :: "jsval \<Rightarrow> bool" where
  "truthy JUndefined = False"
| "truthy JNull = False"
| "truthy (JBool b) = b"
| "truthy (JInt n) = (n \<noteq> 0)"
| "truthy JFrac = True"
| "truthy JNaN = False"
| "truthy (JStr s) = (s \<noteq> [])"
| "truthy JObject = True"

fun is_string :: "jsval \<Rightarrow> bool" where
  "is_string (JStr s) = True"
| "is_string v = False"

text \<open>\<^verbatim>\<open>a || b\<close>\<close>

definition js_or :: "jsval \<Rightarrow> jsval \<Rightarrow> jsval" where
  "js_or a b = (if truthy a then a else b)"

section \<open>Connections (general-mq/lib/amqp-connection.js, mqtt-connection.js)\<close>

text \<open>
  A connection object holds its status, the raw client connection \<^verbatim>\<open>#conn\<close>
  (here: whether it is non-null) and, as an event emitter, its listeners (here: how many
  are registered). What a method does besides changing these fields is returned as a
  list of effects, in the order of the source. Asynchronous completions of the raw client
  are functions of their own (\<open>_onDial\<close>, \<open>_onEnd\<close>), run when the raw client calls
  back.
\<close>

datatype conn_effect =
  EmitStatus Status
  | RawConnect
  | RawClose
  | SetTimeout
  | Callback js_err

fun callbacks :: "conn_effect list \<Rightarrow> js_err list" where
  "callbacks [] = []"
| "callbacks (Callback e # es) = e # callbacks es"
| "callbacks (x # es) = callbacks es"

record AmqpConnection =
  amqp_status :: Status
  amqp_conn :: bool
  amqp_listeners :: nat

definition AmqpConnection_new :: AmqpConnection where
  "AmqpConnection_new = \<lparr>amqp_status = Closed, amqp_conn = False, amqp_listeners = 0\<rparr>"

text \<open>
  \<^verbatim>\<open>connect()\<close>: a no-op unless Closed or Closing; otherwise Connecting, and
  \<^verbatim>\<open>#innerConnect\<close> starts the dial, which completes later in \<open>_onDial\<close>.
\<close>

definition AmqpConnection_connect :: "AmqpConnection \<Rightarrow> AmqpConnection \<times> conn_effect list" where
  "AmqpConnection_connect c =
     (if amqp_status c \<noteq> Closed \<and> amqp_status c \<noteq> Closing then (c, [])
      else (c\<lparr>amqp_status := Connecting\<rparr>, [EmitStatus Connecting, RawConnect]))"

definition AmqpConnection_onDial :: "AmqpConnection \<Rightarrow> js_err \<Rightarrow> AmqpConnection \<times> conn_effect list" where
  "AmqpConnection_onDial c err =
     (case err of
        Some e \<Rightarrow> (c, [SetTimeout])
      | None \<Rightarrow> (c\<lparr>amqp_conn := True, amqp_status := Connected\<rparr>, [EmitStatus Connected]))"

text \<open>
  \<^verbatim>\<open>close(callback)\<close>; \<open>callback\<close> tells whether a function was passed. Without
  a raw connection the method only schedules the callback. With one it moves to Closing
  and asks the raw connection to close; \<open>_onEnd\<close> is the continuation given to the raw
  connection.
\<close>

definition AmqpConnection_close :: "AmqpConnection \<Rightarrow> bool \<Rightarrow> AmqpConnection \<times> conn_effect list" where
  "AmqpConnection_close c callback =
     (if \<not> amqp_conn c then (c, if callback then [Callback None] else [])
      else (c\<lparr>amqp_status := Closing\<rparr>, [EmitStatus Closing, RawClose]))"

definition AmqpConnection_onEnd :: "AmqpConnection \<Rightarrow> bool \<Rightarrow> js_err \<Rightarrow> AmqpConnection \<times> conn_effect list" where
  "AmqpConnection_onEnd c callback err =
     (c\<lparr>amqp_conn := False, amqp_status := Closed\<rparr>,
      EmitStatus Closed # (if callback then [Callback err] else []))"

text \<open>
  A whole close: the call, and the completion of the raw close with \<open>err\<close> when one was
  requested.
\<close>

definition AmqpConnection_closeRun :: "AmqpConnection \<Rightarrow> bool \<Rightarrow> js_err \<Rightarrow> AmqpConnection \<times> conn_effect list" where
  "AmqpConnection_closeRun c callback err =
     (case AmqpConnection_close c callback of
        (c1, es1) \<Rightarrow>
          if RawClose \<in> set es1
          then (case AmqpConnection_onEnd c1 callback err of (c2, es2) \<Rightarrow> (c2, es1 @ es2))
          else (c1, es1))"

text \<open>
  The MQTT connection also holds the packet handlers of its receiver queues, a
  \<^verbatim>\<open>Map\<close> from queue name to \<open>{topic, qos, handler}\<close>; the handler is
  the \<^verbatim>\<open>#innerOnMessage\<close> of the queue of that name, so the entry keeps the topic
  and the QoS only.
\<close>

record PacketHandler =
  ph_topic :: string
  ph_qos :: nat

record MqttConnection =
  mqtt_status :: Status
  mqtt_conn :: bool
  mqtt_listeners :: nat
  packetHandlers :: "(string \<times> PacketHandler) list"

definition MqttConnection_new :: MqttConnection where
  "MqttConnection_new =
     \<lparr>mqtt_status = Closed, mqtt_conn = False, mqtt_listeners = 0, packetHandlers = []\<rparr>"

text \<open>
  \<^verbatim>\<open>connect()\<close>: \<^verbatim>\<open>#innerConnect\<close> stores the client returned by
  \<^verbatim>\<open>mqtt.connect\<close> at once.
\<close>

definition MqttConnection_connect :: "MqttConnection \<Rightarrow> MqttConnection \<times> conn_effect list" where
  "MqttConnection_connect c =
     (if mqtt_status c \<noteq> Closed \<and> mqtt_status c \<noteq> Closing then (c, [])
      else (c\<lparr>mqtt_status := Connecting, mqtt_conn := True\<rparr>, [EmitStatus Connecting, RawConnect]))"

definition MqttConnection_close :: "MqttConnection \<Rightarrow> bool \<Rightarrow> MqttConnection \<times> conn_effect list" where
  "MqttConnection_close c callback =
     (if \<not> mqtt_conn c then (c, if callback then [Callback None] else [])
      else (c\<lparr>mqtt_status := Closing\<rparr>, [EmitStatus Closing, RawClose]))"

definition MqttConnection_onEnd :: "MqttConnection \<Rightarrow> bool \<Rightarrow> js_err \<Rightarrow> MqttConnection \<times> conn_effect list" where
  "MqttConnection_onEnd c callback err =
     (c\<lparr>mqtt_conn := False, mqtt_status := Closed\<rparr>,
      EmitStatus Closed # (if callback then [Callback err] else []))"

definition MqttConnection_closeRun :: "MqttConnection \<Rightarrow> bool \<Rightarrow> js_err \<Rightarrow> MqttConnection \<times> conn_effect list" where
  "MqttConnection_closeRun c callback err =
     (case MqttConnection_close c callback of
        (c1, es1) \<Rightarrow>
          if RawClose \<in> set es1
          then (case MqttConnection_onEnd c1 callback err of (c2, es2) \<Rightarrow> (c2, es1 @ es2))
          else (c1, es1))"

text \<open>
  \<^verbatim>\<open>addPacketHandler(name, topic, reliable, handler)\<close>, for a string topic, a
  boolean and a function. \<^verbatim>\<open>Map.set\<close> replaces the value of a key that is
  present and appends a new key otherwise; \<^verbatim>\<open>Map.delete\<close> removes the key.
\<close>

fun map_set :: "(string \<times> 'v) list \<Rightarrow> string \<Rightarrow> 'v \<Rightarrow> (string \<times> 'v) list" where
  "map_set [] k v = [(k, v)]"
| "map_set ((k', v') # kvs) k v =
     (if k' = k then (k, v) # kvs else (k', v') # map_set kvs k v)"


definition addPacketHandler ::
  "MqttConnection \<Rightarrow> string \<Rightarrow> string \<Rightarrow> bool \<Rightarrow> js_error + MqttConnection" where
  "addPacketHandler c name topic reliable =
     (if \<not> QueuePattern_test name then Inl (Error ''`name` is not a valid queue name'')
      else if topic = [] \<or> \<not> endsWith topic name then Inl (Error ''`topic` is not a valid topic'')
      else Inr (c\<lparr>packetHandlers :=
                  map_set (packetHandlers c) name
                    \<lparr>ph_topic = topic, ph_qos = (if reliable then 1 else 0)\<rparr>\<rparr>))"


section \<open>Queues (general-mq/lib/mqtt-queue.js, amqp-queue.js)\<close>

text \<open>
  The options object handed to a queue constructor. The data-queue factory of the SDK
  builds it with a string name and boolean \<^verbatim>\<open>isRecv\<close>, \<^verbatim>\<open>reliable\<close> and
  \<^verbatim>\<open>broadcast\<close>, and passes a connection of the constructor's own engine, so
  the constructor's tests of these always pass; the other fields are arbitrary values.
\<close>

record QueueOpts =
  q_name :: string
  q_isRecv :: bool
  q_reliable :: bool
  q_broadcast :: bool
  q_reconnectMillis :: jsval
  q_prefetch :: jsval
  q_persistent :: jsval
  q_sharedPrefix :: jsval

definition DEF_RECONN :: int where
  "DEF_RECONN = 1000"

text \<open>
  \<^verbatim>\<open>opts.reconnectMillis !== undefined &&
  (!Number.isInteger(opts.reconnectMillis) || opts.reconnectMillis < 0)\<close>
\<close>

fun bad_reconnectMillis :: "jsval \<Rightarrow> bool" where
  "bad_reconnectMillis JUndefined = False"
| "bad_reconnectMillis (JInt n) = (n < 0)"
| "bad_reconnectMillis v = True"

text \<open>\<^verbatim>\<open>opts.reconnectMillis || DEF_RECONN\<close>, for a value that passed the test\<close>

fun reconnectMillis_or_default :: "jsval \<Rightarrow> int" where
  "reconnectMillis_or_default (JInt n) = (if n \<noteq> 0 then n else DEF_RECONN)"
| "reconnectMillis_or_default v = DEF_RECONN"

datatype queue_effect =
  QEmitStatus Status
  | QSetTimeout int
  | QSubscribe string nat
  | QUnsubscribe string
  | QChannelClose
  | QPublish string string nat
  | QAmqpPublish string string string bool
  | QAmqpPublishConfirm string string string
  | QInnerConnect
  | QCallback js_err

subsection \<open>MqttQueue\<close>

text \<open>
  \<open>mq_sharedPrefix\<close> is \<open>None\<close> for \<^verbatim>\<open>undefined\<close>; the constructor lets
  nothing else through than \<^verbatim>\<open>undefined\<close> and non-empty strings.
  \<open>mq_msgHandler\<close> tells whether \<^verbatim>\<open>#msgHandler\<close> holds a function
  (it is \<^verbatim>\<open>null\<close> otherwise). A queue is an event emitter:
  \<open>mq_listeners\<close> is the number of listeners of its status event.
\<close>

record MqttQueue =
  mq_name :: string
  mq_isRecv :: bool
  mq_reliable :: bool
  mq_broadcast :: bool
  mq_reconnectMillis :: int
  mq_sharedPrefix :: "string option"
  mq_status :: Status
  mq_connProcessing :: bool
  mq_msgHandler :: bool
  mq_listeners :: nat

text \<open>
  \<^verbatim>\<open>opts.sharedPrefix !== undefined &&
  (!opts.sharedPrefix || typeof opts.sharedPrefix !== DataTypes.String)\<close>
\<close>

fun bad_sharedPrefix :: "jsval \<Rightarrow> bool" where
  "bad_sharedPrefix JUndefined = False"
| "bad_sharedPrefix (JStr s) = (s = [])"
| "bad_sharedPrefix v = True"

fun stored_sharedPrefix :: "jsval \<Rightarrow> string option" where
  "stored_sharedPrefix (JStr s) = Some s"
| "stored_sharedPrefix v = None"

text \<open>
  The constructor; it also registers the queue's status listener on the connection
  (\<^verbatim>\<open>this.#conn.on(Events.Status, ...)\<close>).
\<close>

definition MqttQueue_new ::
  "QueueOpts \<Rightarrow> MqttConnection \<Rightarrow> js_error + (MqttQueue \<times> MqttConnection)" where
  "MqttQueue_new opts c =
     (if \<not> QueuePattern_test (q_name opts) then Inl (Error name_pattern_message)
      else if bad_sharedPrefix (q_sharedPrefix opts)
        then Inl (Error ''`sharedPrefix` must be a string'')
      else if bad_reconnectMillis (q_reconnectMillis opts)
        then Inl (Error ''`reconnectMillis` must be a positive integer'')
      else Inr (\<lparr>mq_name = q_name opts,
                 mq_isRecv = q_isRecv opts,
                 mq_reliable = q_reliable opts,
                 mq_broadcast = q_broadcast opts,
                 mq_reconnectMillis = reconnectMillis_or_default (q_reconnectMillis opts),
                 mq_sharedPrefix = stored_sharedPrefix (q_sharedPrefix opts),
                 mq_status = Closed,
                 mq_connProcessing = False,
                 mq_msgHandler = False,
                 mq_listeners = 0\<rparr>,
                c\<lparr>mqtt_listeners := Suc (mqtt_listeners c)\<rparr>))"

text \<open>
  \<^verbatim>\<open>setMsgHandler(handler)\<close>; the argument tells whether \<^verbatim>\<open>handler\<close> is a
  function.
\<close>

definition MqttQueue_setMsgHandler :: "MqttQueue \<Rightarrow> bool \<Rightarrow> js_error + MqttQueue" where
  "MqttQueue_setMsgHandler q is_function =
     (if \<not> is_function then Inl (Error ''the handler is not a function'')
      else Inr (q\<lparr>mq_msgHandler := True\<rparr>))"

text \<open>
  \<^verbatim>\<open>#topic()\<close>. The template literal
  \<^verbatim>\<open>`${this.#opts.sharedPrefix}${this.#opts.name}`\<close> converts
  \<^verbatim>\<open>undefined\<close> to the nine characters \<^verbatim>\<open>undefined\<close>.
\<close>

fun template_string :: "string option \<Rightarrow> string" where
  "template_string None = ''undefined''"
| "template_string (Some s) = s"

definition MqttQueue_topic :: "MqttQueue \<Rightarrow> string" where
  "MqttQueue_topic q =
     (if mq_isRecv q \<and> \<not> mq_broadcast q then template_string (mq_sharedPrefix q) @ mq_name q
      else mq_name q)"

text \<open>
  \<^verbatim>\<open>#innerConnect()\<close>, up to the call of the raw client's \<^verbatim>\<open>subscribe\<close>.
\<close>

definition MqttQueue_innerConnect ::
  "MqttQueue \<Rightarrow> MqttConnection \<Rightarrow> MqttQueue \<times> queue_effect list" where
  "MqttQueue_innerConnect q c =
     (if mq_status q \<noteq> Connecting \<or> mq_connProcessing q then (q, [])
      else if mqtt_status c \<noteq> Connected
        then (q\<lparr>mq_connProcessing := False\<rparr>, [QSetTimeout (mq_reconnectMillis q)])
      else if \<not> mqtt_conn c
        then (q\<lparr>mq_connProcessing := False\<rparr>, [QSetTimeout (mq_reconnectMillis q)])
      else if \<not> mq_isRecv q
        then (q\<lparr>mq_connProcessing := False, mq_status := Connected\<rparr>, [QEmitStatus Connected])
      else (q\<lparr>mq_connProcessing := True\<rparr>,
            [QSubscribe (MqttQueue_topic q) (if mq_reliable q then 1 else 0)]))"

text \<open>
  \<^verbatim>\<open>connect()\<close>. Both throws (the missing handler, and a rejected packet handler)
  come before any assignment, so an error leaves queue and connection as they were.
\<close>

definition MqttQueue_connect ::
  "MqttQueue \<Rightarrow> MqttConnection \<Rightarrow> js_error + (MqttQueue \<times> MqttConnection \<times> queue_effect list)" where
  "MqttQueue_connect q c =
     (if mq_isRecv q \<and> \<not> mq_msgHandler q then Inl (Error Errors_NoMsgHandler)
      else if mq_status q \<noteq> Closed \<and> mq_status q \<noteq> Closing then Inr (q, c, [])
      else
        (case (if mq_isRecv q
               then addPacketHandler c (mq_name q) (MqttQueue_topic q) (mq_reliable q)
               else Inr c) of
           Inl e \<Rightarrow> Inl e
         | Inr c1 \<Rightarrow>
             (case MqttQueue_innerConnect (q\<lparr>mq_status := Connecting\<rparr>) c1 of
                (q1, es) \<Rightarrow> Inr (q1, c1, QEmitStatus Connecting # es))))"




text \<open>
  \<^verbatim>\<open>sendMsg(payload, callback)\<close> for a \<^verbatim>\<open>Buffer\<close> payload and a function
  callback (the two argument tests of the source). The publish is a method call on the
  raw connection, a TypeError when there is none; its completion is handed to the callback
  by the raw client.
\<close>

definition MqttQueue_sendMsg ::
  "MqttQueue \<Rightarrow> MqttConnection \<Rightarrow> string \<Rightarrow> js_error + queue_effect list" where
  "MqttQueue_sendMsg q c payload =
     (if mq_status q \<noteq> Connected then Inr [QCallback (Some (Error Errors_NotConnected))]
      else if mq_isRecv q then Inr [QCallback (Some (Error Errors_QueueIsReceiver))]
      else if \<not> mqtt_conn c then Inl TypeError
      else Inr [QPublish (MqttQueue_topic q) payload (if mq_reliable q then 1 else 0)])"

subsection \<open>AmqpQueue\<close>

record AmqpQueue =
  aq_name :: string
  aq_isRecv :: bool
  aq_reliable :: bool
  aq_broadcast :: bool
  aq_reconnectMillis :: int
  aq_prefetch :: jsval
  aq_persistent :: bool
  aq_status :: Status
  aq_connProcessing :: bool
  aq_channel :: bool
  aq_msgHandler :: bool
  aq_listeners :: nat

text \<open>
  \<^verbatim>\<open>!Number.isInteger(opts.prefetch) || opts.prefetch <= 0 || opts.prefetch > 65535\<close>
\<close>

fun bad_queue_prefetch :: "jsval \<Rightarrow> bool" where
  "bad_queue_prefetch (JInt n) = (n \<le> 0 \<or> n > 65535)"
| "bad_queue_prefetch v = True"

text \<open>\<^verbatim>\<open>opts.persistent !== undefined && typeof opts.persistent !== DataTypes.Boolean\<close>\<close>

fun bad_persistent :: "jsval \<Rightarrow> bool" where
  "bad_persistent JUndefined = False"
| "bad_persistent (JBool b) = False"
| "bad_persistent v = True"

definition AmqpQueue_new ::
  "QueueOpts \<Rightarrow> AmqpConnection \<Rightarrow> js_error + (AmqpQueue \<times> AmqpConnection)" where
  "AmqpQueue_new opts c =
     (if \<not> QueuePattern_test (q_name opts) then Inl (Error name_pattern_message)
      else if q_isRecv opts \<and> bad_queue_prefetch (q_prefetch opts)
        then Inl (Error ''`prefetch` must be a positive integer between 1 to 65535'')
      else if bad_reconnectMillis (q_reconnectMillis opts)
        then Inl (Error ''`reconnectMillis` must be a positive integer'')
      else if bad_persistent (q_persistent opts)
        then Inl (Error ''`persistent` is not boolean'')
      else Inr (\<lparr>aq_name = q_name opts,
                 aq_isRecv = q_isRecv opts,
                 aq_reliable = q_reliable opts,
                 aq_broadcast = q_broadcast opts,
                 aq_reconnectMillis = reconnectMillis_or_default (q_reconnectMillis opts),
                 aq_prefetch = q_prefetch opts,
                 aq_persistent = truthy (q_persistent opts),
                 aq_status = Closed,
                 aq_connProcessing = False,
                 aq_channel = False,
                 aq_msgHandler = False,
                 aq_listeners = 0\<rparr>,
                c\<lparr>amqp_listeners := Suc (amqp_listeners c)\<rparr>))"

text \<open>
  \<^verbatim>\<open>connect()\<close>; the channel set-up of \<^verbatim>\<open>#innerConnect\<close> is the effect
  \<open>QInnerConnect\<close>.
\<close>

definition AmqpQueue_connect :: "AmqpQueue \<Rightarrow> js_error + (AmqpQueue \<times> queue_effect list)" where
  "AmqpQueue_connect q =
     (if aq_isRecv q \<and> \<not> aq_msgHandler q then Inl (Error Errors_NoMsgHandler)
      else if aq_status q \<noteq> Closed \<and> aq_status q \<noteq> Closing then Inr (q, [])
      else Inr (q\<lparr>aq_status := Connecting\<rparr>, [QEmitStatus Connecting, QInnerConnect]))"




text \<open>
  \<^verbatim>\<open>sendMsg(payload, callback)\<close>: a reliable publish hands the broker's
  confirmation to the callback; an unreliable one calls back with \<^verbatim>\<open>null\<close> from
  a timer of one millisecond. The publish is a method call on the channel, a TypeError
  when there is none.
\<close>

definition AmqpQueue_sendMsg :: "AmqpQueue \<Rightarrow> string \<Rightarrow> js_error + queue_effect list" where
  "AmqpQueue_sendMsg q payload =
     (if aq_status q \<noteq> Connected then Inr [QCallback (Some (Error Errors_NotConnected))]
      else if aq_isRecv q then Inr [QCallback (Some (Error Errors_QueueIsReceiver))]
      else if \<not> aq_channel q then Inl TypeError
      else
        (let exchange = (if aq_broadcast q then aq_name q else []);
             routingKey = (if aq_broadcast q then [] else aq_name q)
         in if aq_reliable q then Inr [QAmqpPublishConfirm exchange routingKey payload]
            else Inr [QAmqpPublish exchange routingKey payload (aq_persistent q),
                      QSetTimeout 1, QCallback None]))"

text \<open>Whether the outcome of a \<^verbatim>\<open>sendMsg\<close> is a publish of the payload.\<close>

fun published :: "js_error + queue_effect list \<Rightarrow> bool" where
  "published (Inr (QPublish t p n # es)) = True"
| "published (Inr (QAmqpPublish e r p b # es)) = True"
| "published (Inr (QAmqpPublishConfirm e r p # es)) = True"
| "published r = False"

subsection \<open>A queue of either engine\<close>

datatype gmq_queue = AmqpQ AmqpQueue | MqttQ MqttQueue

fun queue_status :: "gmq_queue \<Rightarrow> Status" where
  "queue_status (AmqpQ q) = aq_status q"
| "queue_status (MqttQ q) = mq_status q"

fun queue_name :: "gmq_queue \<Rightarrow> string" where
  "queue_name (AmqpQ q) = aq_name q"
| "queue_name (MqttQ q) = mq_name q"





section \<open>Connection pool and data-queue factory (sdk/mq/lib.js)\<close>

datatype gmq_connection = AmqpConn AmqpConnection | MqttConn MqttConnection


text \<open>The pooled connection object: the connection and its reference count.\<close>

record Connection =
  conn :: gmq_connection
  count :: int

type_synonym ConnPool = "string \<rightharpoonup> Connection"

definition DEF_PREFETCH :: int where
  "DEF_PREFETCH = 100"

definition DEF_PERSISTENT :: bool where
  "DEF_PERSISTENT = False"

fun removeAllListeners :: "gmq_connection \<Rightarrow> gmq_connection" where
  "removeAllListeners (AmqpConn c) = AmqpConn (c\<lparr>amqp_listeners := 0\<rparr>)"
| "removeAllListeners (MqttConn c) = MqttConn (c\<lparr>mqtt_listeners := 0\<rparr>)"

fun connection_closeRun :: "gmq_connection \<Rightarrow> bool \<Rightarrow> js_err \<Rightarrow> gmq_connection \<times> conn_effect list" where
  "connection_closeRun (AmqpConn c) callback err =
     (case AmqpConnection_closeRun c callback err of (c', es) \<Rightarrow> (AmqpConn c', es))"
| "connection_closeRun (MqttConn c) callback err =
     (case MqttConnection_closeRun c callback err of (c', es) \<Rightarrow> (MqttConn c', es))"

text \<open>
  \<^verbatim>\<open>removeConnection(connPool, hostUri, count, callback)\<close>. The pooled object is
  shared by reference: the decrement and the close are seen through the pool entry when
  the entry stays. The result is the pool, the connection object as the call leaves it
  (\<open>None\<close> when the key is absent), and the arguments of the calls of
  \<^verbatim>\<open>callback\<close>; \<open>err\<close> is what the raw connection reports when it is asked to
  close.
\<close>

definition removeConnection ::
  "ConnPool \<Rightarrow> string \<Rightarrow> int \<Rightarrow> js_err \<Rightarrow> ConnPool \<times> Connection option \<times> js_err list" where
  "removeConnection connPool hostUri n err =
     (case connPool hostUri of
        None \<Rightarrow> (connPool, None, [None])
      | Some c \<Rightarrow>
          (let c1 = c\<lparr>count := count c - n\<rparr>;
               deleted = (count c1 \<le> 0)
           in case connection_closeRun (removeAllListeners (conn c1)) True err of
                (g, es) \<Rightarrow>
                  (let c2 = c1\<lparr>conn := g\<rparr>
                   in ((if deleted then connPool(hostUri := None) else connPool(hostUri \<mapsto> c2)),
                       Some c2, callbacks es))))"

subsection \<open>newDataQueues\<close>

text \<open>
  The manager options, an untyped object in the source. \<^verbatim>\<open>opts.id\<close> is the field
  \<open>opts_id\<close>, and so on.
\<close>

record Options =
  opts_unitId :: jsval
  opts_unitCode :: jsval
  opts_id :: jsval
  opts_name :: jsval
  opts_prefetch :: jsval
  opts_persistent :: jsval
  opts_sharedPrefix :: jsval

record DataMqQueues =
  uldata :: gmq_queue
  dldata :: gmq_queue
  dldataResp :: "gmq_queue option"
  dldataResult :: gmq_queue
  ctrl :: "gmq_queue option"

text \<open>
  \<^verbatim>\<open>opts.prefetch !== undefined &&
  (!Number.isInteger(opts.prefetch) || opts.prefetch < 0 || opts.prefetch > 65535)\<close>
\<close>

fun bad_opts_prefetch :: "jsval \<Rightarrow> bool" where
  "bad_opts_prefetch JUndefined = False"
| "bad_opts_prefetch (JInt n) = (n < 0 \<or> n > 65535)"
| "bad_opts_prefetch v = True"

text \<open>\<^verbatim>\<open>v !== undefined && typeof v !== DataTypes.String\<close>\<close>

fun bad_optional_string :: "jsval \<Rightarrow> bool" where
  "bad_optional_string JUndefined = False"
| "bad_optional_string (JStr s) = False"
| "bad_optional_string v = True"

text \<open>\<^verbatim>\<open>!v || typeof v !== DataTypes.String\<close>\<close>

definition bad_nonempty_string :: "jsval \<Rightarrow> bool" where
  "bad_nonempty_string v = (\<not> truthy v \<or> \<not> is_string v)"

text \<open>The text of a value that is known to be a string.\<close>

fun str_of :: "jsval \<Rightarrow> string" where
  "str_of (JStr s) = s"
| "str_of v = []"

text \<open>\<^verbatim>\<open>new engine.Queue(qOpts, conn.conn)\<close>, the engine being that of the connection\<close>

fun Queue_new :: "QueueOpts \<Rightarrow> gmq_connection \<Rightarrow> js_error + (gmq_queue \<times> gmq_connection)" where
  "Queue_new qOpts (AmqpConn c) =
     (case AmqpQueue_new qOpts c of Inl e \<Rightarrow> Inl e | Inr (q, c') \<Rightarrow> Inr (AmqpQ q, AmqpConn c'))"
| "Queue_new qOpts (MqttConn c) =
     (case MqttQueue_new qOpts c of Inl e \<Rightarrow> Inl e | Inr (q, c') \<Rightarrow> Inr (MqttQ q, MqttConn c'))"

text \<open>A queue that is created only when the flag holds (\<^verbatim>\<open>cond ? new ... : null\<close>).\<close>

definition Queue_new_if ::
  "bool \<Rightarrow> QueueOpts \<Rightarrow> gmq_connection \<Rightarrow> js_error + (gmq_queue option \<times> gmq_connection)" where
  "Queue_new_if b qOpts g =
     (if b then (case Queue_new qOpts g of Inl e \<Rightarrow> Inl e | Inr (q, g') \<Rightarrow> Inr (Some q, g'))
      else Inr (None, g))"

text \<open>
  \<^verbatim>\<open>newDataQueues(conn, opts, prefix, isNetwork)\<close> for a pooled connection, an
  options object, a string and a boolean. The result holds the queues and the pooled
  connection, on which every created queue has registered its listener.
\<close>

definition newDataQueues ::
  "Connection \<Rightarrow> Options \<Rightarrow> string \<Rightarrow> bool \<Rightarrow> js_error + (DataMqQueues \<times> Connection)" where
  "newDataQueues c opts prefix isNetwork =
     (if prefix = [] then Inl (Error ''`prefix` is not a string'')
      else if bad_optional_string (opts_unitId opts)
        then Inl (Error ''`opts.unitId` is not a string'')
      else if bad_optional_string (opts_unitCode opts)
        then Inl (Error ''`opts.unitCode` is not a string'')
      else if bad_nonempty_string (opts_id opts)
        then Inl (Error ''`opts.id` is not a non-empty string'')
      else if bad_nonempty_string (opts_name opts)
        then Inl (Error ''`opts.name` is not a non-empty string'')
      else if bad_opts_prefetch (opts_prefetch opts)
        then Inl (Error ''`opts.prefetch` is not an integer between 1 and 65535'')
      else if bad_persistent (opts_persistent opts)
        then Inl (Error ''`opts.persistent` is not a boolean'')
      else if bad_optional_string (opts_sharedPrefix opts)
        then Inl (Error ''`opts.sharedPrefix` is not a string'')
      else if (truthy (opts_unitId opts) \<and> \<not> truthy (opts_unitCode opts))
              \<or> (\<not> truthy (opts_unitId opts) \<and> truthy (opts_unitCode opts))
        then Inl (Error ''`opts.unitId` and `opts.unitCode` must both empty or non-empty'')
      else
        (let qNamePrefix =
               prefix @ ''.'' @ str_of (js_or (opts_unitCode opts) (JStr ''_'')) @ ''.''
                 @ str_of (opts_name opts);
             qOpts = \<lparr>q_name = qNamePrefix @ ''.uldata'',
                      q_isRecv = (\<not> isNetwork),
                      q_reliable = True,
                      q_broadcast = False,
                      q_reconnectMillis = JUndefined,
                      q_prefetch = js_or (opts_prefetch opts) (JInt DEF_PREFETCH),
                      q_persistent = js_or (opts_persistent opts) (JBool DEF_PERSISTENT),
                      q_sharedPrefix = opts_sharedPrefix opts\<rparr>
         in case Queue_new qOpts (conn c) of Inl e \<Rightarrow> Inl e | Inr (q1, g1) \<Rightarrow>
            (case Queue_new (qOpts\<lparr>q_name := qNamePrefix @ ''.dldata'', q_isRecv := isNetwork\<rparr>) g1
             of Inl e \<Rightarrow> Inl e | Inr (q2, g2) \<Rightarrow>
            (case Queue_new_if (\<not> isNetwork)
                    (qOpts\<lparr>q_name := qNamePrefix @ ''.dldata-resp'', q_isRecv := (\<not> isNetwork)\<rparr>) g2
             of Inl e \<Rightarrow> Inl e | Inr (q3, g3) \<Rightarrow>
            (case Queue_new
                    (qOpts\<lparr>q_name := qNamePrefix @ ''.dldata-result'', q_isRecv := (\<not> isNetwork)\<rparr>) g3
             of Inl e \<Rightarrow> Inl e | Inr (q4, g4) \<Rightarrow>
            (case Queue_new_if isNetwork
                    (qOpts\<lparr>q_name := qNamePrefix @ ''.ctrl'', q_isRecv := True\<rparr>) g4
             of Inl e \<Rightarrow> Inl e | Inr (q5, g5) \<Rightarrow>
               Inr (\<lparr>uldata = q1, dldata = q2, dldataResp = q3, dldataResult = q4, ctrl = q5\<rparr>,
                    c\<lparr>conn := g5\<rparr>)))))))"

section \<open>The network manager (sdk/mq/network.js)\<close>

text \<open>
  The manager holds its four queues, its status and the host URI under which its
  connection is pooled. The pool and the connection of the queues are shared objects; the
  functions that use them take and return them.
\<close>

record NetworkMgr =
  nm_hostUri :: string
  nm_uldata :: gmq_queue
  nm_dldata :: gmq_queue
  nm_dldataResult :: gmq_queue
  nm_ctrl :: gmq_queue
  nm_status :: MgrStatus

record DataMqStatus =
  st_uldata :: Status
  st_dldata :: Status
  st_dldataResp :: Status
  st_dldataResult :: Status
  st_ctrl :: Status

definition mqStatus :: "NetworkMgr \<Rightarrow> DataMqStatus" where
  "mqStatus mgr =
     \<lparr>st_uldata = queue_status (nm_uldata mgr),
      st_dldata = queue_status (nm_dldata mgr),
      st_dldataResp = Closed,
      st_dldataResult = queue_status (nm_dldataResult mgr),
      st_ctrl = queue_status (nm_ctrl mgr)\<rparr>"

subsection \<open>Status aggregation\<close>


text \<open>
  The constructor registers the handler as a listener of the status event of each of the
  four queues, and nothing else listens to them. A queue assigns its status and emits the
  event in one step, and the emitter then calls each listener: a status event of a queue
  is that the queue takes the status and the handler runs once for every listener the
  queue has, so not at all once the listeners are removed.
\<close>

datatype role = Uldata | Dldata | DldataResult | Ctrl


fun put_queue :: "NetworkMgr \<Rightarrow> role \<Rightarrow> gmq_queue \<Rightarrow> NetworkMgr" where
  "put_queue mgr Uldata q = mgr\<lparr>nm_uldata := q\<rparr>"
| "put_queue mgr Dldata q = mgr\<lparr>nm_dldata := q\<rparr>"
| "put_queue mgr DldataResult q = mgr\<lparr>nm_dldataResult := q\<rparr>"
| "put_queue mgr Ctrl q = mgr\<lparr>nm_ctrl := q\<rparr>"








subsection \<open>Closing the manager\<close>






subsection \<open>Message routing\<close>

text \<open>
  The value of \<^verbatim>\<open>JSON.parse\<close>. A number is \<open>JsInt\<close> when it is an integer and
  \<open>JsFrac\<close> otherwise; an object holds its members in the order of the text, and a
  repeated key takes its last value.
\<close>

datatype json =
  JsNull | JsBool bool | JsInt int | JsFrac | JsStr string
  | JsArr "json list" | JsObj "(string \<times> json) list"

fun is_object :: "json \<Rightarrow> bool" where
  "is_object (JsArr xs) = True"
| "is_object (JsObj fs) = True"
| "is_object v = False"

text \<open>The value of a named property of a parsed object; \<open>None\<close> is \<^verbatim>\<open>undefined\<close>.\<close>

fun json_prop :: "json \<Rightarrow> string \<Rightarrow> json option" where
  "json_prop (JsObj fs) k = map_of (rev fs) k"
| "json_prop v k = None"

text \<open>
  The user's handlers. A handler is called with the manager, the decoded data and a
  completion callback; what matters here is the list of the calls it makes of that
  callback, each with its \<^verbatim>\<open>err\<close> argument. The handlers here return; one that
  raises is not described.
\<close>

record NetMgrMsgHandlers =
  onDlData :: "json \<Rightarrow> js_err list"
  onCtrl :: "json \<Rightarrow> js_err list"

datatype mgr_effect =
  Ack string
  | Nack string
  | CallOnDlData json
  | CallOnCtrl json
  | CallOnUlData json
  | CallOnDlDataResp json
  | CallOnDlDataResult json

text \<open>The callback the manager hands to the user's handler, for the queue of that name.\<close>

fun settle :: "string \<Rightarrow> js_err \<Rightarrow> mgr_effect" where
  "settle qname (Some e) = Nack qname"
| "settle qname None = Ack qname"

text \<open>
  \<^verbatim>\<open>#gmqMsgHandler(queue, msg)\<close>. \<open>parsed\<close> is the outcome of
  \<^verbatim>\<open>JSON.parse(msg.payload.toString())\<close>, \<open>None\<close> when it throws; only that
  call is inside the \<^verbatim>\<open>try\<close>. The file is in strict mode: in
  \<^verbatim>\<open>data.pub = new Date(data.pub)\<close> and \<^verbatim>\<open>data.time = new Date(data.time)\<close>
  the property access raises a TypeError when \<^verbatim>\<open>data\<close> is \<^verbatim>\<open>null\<close>, and
  the assignment raises one when \<^verbatim>\<open>data\<close> is a boolean, a number or a string.
  \<^verbatim>\<open>new Date(v)\<close> and \<^verbatim>\<open>Buffer.from(v, 'hex')\<close> are functions of the
  runtime that raise a TypeError on some values: \<open>date_ok\<close> and \<open>bufferFrom_ok\<close> tell
  for which property values (\<open>None\<close> for an absent property) they return. The calls of
  the user's handler and of \<^verbatim>\<open>ack\<close> and \<^verbatim>\<open>nack\<close> are the effects; a
  TypeError leaves none. A call of the user's handler is recorded with the parsed value
  it is made for; the handler receives that object with the converted properties.
\<close>

definition gmqMsgHandler ::
  "NetworkMgr \<Rightarrow> NetMgrMsgHandlers \<Rightarrow> (json option \<Rightarrow> bool) \<Rightarrow> (json option \<Rightarrow> bool)
     \<Rightarrow> gmq_queue \<Rightarrow> json option \<Rightarrow> js_error + mgr_effect list" where
  "gmqMsgHandler mgr handler date_ok bufferFrom_ok queue parsed =
     (case parsed of
        None \<Rightarrow> Inr [Ack (queue_name queue)]
      | Some data \<Rightarrow>
          if queue_name queue = queue_name (nm_dldata mgr) then
            (if \<not> is_object data then Inl TypeError
             else if \<not> date_ok (json_prop data ''pub'') then Inl TypeError
             else if \<not> bufferFrom_ok (json_prop data ''data'') then Inl TypeError
             else Inr (CallOnDlData data
                       # map (settle (queue_name (nm_dldata mgr))) (onDlData handler data)))
          else if queue_name queue = queue_name (nm_ctrl mgr) then
            (if \<not> is_object data then Inl TypeError
             else if \<not> date_ok (json_prop data ''time'') then Inl TypeError
             else Inr (CallOnCtrl data
                       # map (settle (queue_name (nm_ctrl mgr))) (onCtrl handler data)))
          else Inr [])"

fun settlements :: "mgr_effect list \<Rightarrow> mgr_effect list" where
  "settlements [] = []"
| "settlements (Ack q # es) = Ack q # settlements es"
| "settlements (Nack q # es) = Nack q # settlements es"
| "settlements (e # es) = settlements es"

fun handler_calls :: "mgr_effect list \<Rightarrow> mgr_effect list" where
  "handler_calls [] = []"
| "handler_calls (CallOnDlData d # es) = CallOnDlData d # handler_calls es"
| "handler_calls (CallOnCtrl d # es) = CallOnCtrl d # handler_calls es"
| "handler_calls (CallOnUlData d # es) = CallOnUlData d # handler_calls es"
| "handler_calls (CallOnDlDataResp d # es) = CallOnDlDataResp d # handler_calls es"
| "handler_calls (CallOnDlDataResult d # es) = CallOnDlDataResult d # handler_calls es"
| "handler_calls (e # es) = handler_calls es"

section \<open>The application manager (sdk/mq/application.js)\<close>

text \<open>
  The application manager aggregates and closes as the network manager does, over the
  queues uldata, dldata, dldataResp and dldataResult; it routes the messages of uldata,
  dldataResp and dldataResult.
\<close>

record ApplicationMgr =
  am_hostUri :: string
  am_uldata :: gmq_queue
  am_dldata :: gmq_queue
  am_dldataResp :: gmq_queue
  am_dldataResult :: gmq_queue
  am_status :: MgrStatus













text \<open>
  \<^verbatim>\<open>#gmqMsgHandler(queue, msg)\<close> of the application manager. The uldata branch
  assigns \<^verbatim>\<open>data.time\<close>, \<^verbatim>\<open>data.pub\<close> and \<^verbatim>\<open>data.data\<close> before it calls
  the handler; the dldataResp and dldataResult branches hand the parsed value to the
  handler as it is.
\<close>

record AppMgrMsgHandlers =
  onUlData :: "json \<Rightarrow> js_err list"
  onDlDataResp :: "json \<Rightarrow> js_err list"
  onDlDataResult :: "json \<Rightarrow> js_err list"

definition ApplicationMgr_gmqMsgHandler ::
  "ApplicationMgr \<Rightarrow> AppMgrMsgHandlers \<Rightarrow> (json option \<Rightarrow> bool) \<Rightarrow> (json option \<Rightarrow> bool)
     \<Rightarrow> gmq_queue \<Rightarrow> json option \<Rightarrow> js_error + mgr_effect list" where
  "ApplicationMgr_gmqMsgHandler mgr handler date_ok bufferFrom_ok queue parsed =
     (case parsed of
        None \<Rightarrow> Inr [Ack (queue_name queue)]
      | Some data \<Rightarrow>
          if queue_name queue = queue_name (am_uldata mgr) then
            (if \<not> is_object data then Inl TypeError
             else if \<not> date_ok (json_prop data ''time'') then Inl TypeError
             else if \<not> date_ok (json_prop data ''pub'') then Inl TypeError
             else if \<not> bufferFrom_ok (json_prop data ''data'') then Inl TypeError
             else Inr (CallOnUlData data
                       # map (settle (queue_name (am_uldata mgr))) (onUlData handler data)))
          else if queue_name queue = queue_name (am_dldataResp mgr) then
            Inr (CallOnDlDataResp data
                 # map (settle (queue_name (am_dldataResp mgr))) (onDlDataResp handler data))
          else if queue_name queue = queue_name (am_dldataResult mgr) then
            Inr (CallOnDlDataResult data
                 # map (settle (queue_name (am_dldataResult mgr))) (onDlDataResult handler data))
          else Inr [])"

text \<open>
  In their status and their close the two managers differ in the names of their queues
  only: an application manager read as a network manager, its queues taken in the order
  of its handler and its close.
\<close>

definition as_network :: "ApplicationMgr \<Rightarrow> NetworkMgr" where
  "as_network a =
     \<lparr>nm_hostUri = am_hostUri a, nm_uldata = am_uldata a, nm_dldata = am_dldata a,
      nm_dldataResult = am_dldataResp a, nm_ctrl = am_dldataResult a, nm_status = am_status a\<rparr>"

definition as_application :: "NetworkMgr \<Rightarrow> ApplicationMgr" where
  "as_application m =
     \<lparr>am_hostUri = nm_hostUri m, am_uldata = nm_uldata m, am_dldata = nm_dldata m,
      am_dldataResp = nm_dldataResult m, am_dldataResult = nm_ctrl m, am_status = nm_status m\<rparr>"


section \<open>Example values\<close>

text \<open>
  Concrete inputs, taken from the repository's tests where they have one: the options of
  the test of the manager with manual options (\<^verbatim>\<open>prefetch: 0\<close>), and the
  receiver of the queue test of send errors, which has no \<^verbatim>\<open>sharedPrefix\<close>.
\<close>

definition ex_pool :: ConnPool where
  "ex_pool = [''amqp://localhost/'' \<mapsto>
      \<lparr>conn = AmqpConn \<lparr>amqp_status = Connected, amqp_conn = True, amqp_listeners = 8\<rparr>,
       count = 8\<rparr>]"

definition ex_conn :: Connection where
  "ex_conn = \<lparr>conn = AmqpConn AmqpConnection_new, count = 0\<rparr>"

definition ex_opts :: Options where
  "ex_opts =
     \<lparr>opts_unitId = JStr ''unit_id'', opts_unitCode = JStr ''unit_code'',
      opts_id = JStr ''id_network'', opts_name = JStr ''code_network'',
      opts_prefetch = JInt 0, opts_persistent = JBool False,
      opts_sharedPrefix = JStr ''$share/general-mq/''\<rparr>"

fun queue_prefetch :: "gmq_queue \<Rightarrow> jsval" where
  "queue_prefetch (AmqpQ q) = aq_prefetch q"
| "queue_prefetch (MqttQ q) = JUndefined"

text \<open>The names and prefetch values of the queues a call of the factory created.\<close>

definition created :: "js_error + (DataMqQueues \<times> Connection) \<Rightarrow> (string \<times> jsval) list" where
  "created r =
     (case r of
        Inl e \<Rightarrow> []
      | Inr (qs, c) \<Rightarrow>
          map (\<lambda>q. (queue_name q, queue_prefetch q))
            ([uldata qs, dldata qs] @ (case dldataResp qs of None \<Rightarrow> [] | Some q \<Rightarrow> [q])
             @ [dldataResult qs] @ (case ctrl qs of None \<Rightarrow> [] | Some q \<Rightarrow> [q])))"

definition sendError_opts :: QueueOpts where
  "sendError_opts =
     \<lparr>q_name = ''name'', q_isRecv = True, q_reliable = False, q_broadcast = False,
      q_reconnectMillis = JUndefined, q_prefetch = JInt 1, q_persistent = JUndefined,
      q_sharedPrefix = JUndefined\<rparr>"

definition connected_mqtt :: MqttConnection where
  "connected_mqtt =
     \<lparr>mqtt_status = Connected, mqtt_conn = True, mqtt_listeners = 0, packetHandlers = []\<rparr>"

definition ex_queue :: "string \<Rightarrow> bool \<Rightarrow> Status \<Rightarrow> MqttQueue" where
  "ex_queue n recv st =
     \<lparr>mq_name = n, mq_isRecv = recv, mq_reliable = True, mq_broadcast = False,
      mq_reconnectMillis = 1000, mq_sharedPrefix = Some ''$share/general-mq/'',
      mq_status = st, mq_connProcessing = False, mq_msgHandler = True, mq_listeners = 1\<rparr>"

definition ex_amqp_queue :: "bool \<Rightarrow> Status \<Rightarrow> AmqpQueue" where
  "ex_amqp_queue recv st =
     \<lparr>aq_name = ''name'', aq_isRecv = recv, aq_reliable = False, aq_broadcast = False,
      aq_reconnectMillis = 1000, aq_prefetch = JInt 1, aq_persistent = False,
      aq_status = st, aq_connProcessing = False, aq_channel = (st = Connected),
      aq_msgHandler = False, aq_listeners = 0\<rparr>"

definition ex_mgr :: NetworkMgr where
  "ex_mgr =
     \<lparr>nm_hostUri = ''mqtt://localhost/'',
      nm_uldata = MqttQ (ex_queue ''broker.network.unit_code.code_network.uldata'' False Connecting),
      nm_dldata = MqttQ (ex_queue ''broker.network.unit_code.code_network.dldata'' True Connecting),
      nm_dldataResult =
        MqttQ (ex_queue ''broker.network.unit_code.code_network.dldata-result'' False Connecting),
      nm_ctrl = MqttQ (ex_queue ''broker.network.unit_code.code_network.ctrl'' True Connecting),
      nm_status = NotReady\<rparr>"





text \<open>An application manager, before and after its four queues have connected.\<close>

definition ex_app_mgr :: ApplicationMgr where
  "ex_app_mgr =
     \<lparr>am_hostUri = ''mqtt://localhost/'',
      am_uldata =
        MqttQ (ex_queue ''broker.application.unit_code.code_application.uldata'' True Connecting),
      am_dldata =
        MqttQ (ex_queue ''broker.application.unit_code.code_application.dldata'' False Connecting),
      am_dldataResp =
        MqttQ (ex_queue ''broker.application.unit_code.code_application.dldata-resp'' True
                 Connecting),
      am_dldataResult =
        MqttQ (ex_queue ''broker.application.unit_code.code_application.dldata-result'' True
                 Connecting),
      am_status = NotReady\<rparr>"




text \<open>Handlers that complete once: the downlink handler with an error, the other without.\<close>

definition ex_handlers :: NetMgrMsgHandlers where
  "ex_handlers = \<lparr>onDlData = (\<lambda>d. [Some (Error [])]), onCtrl = (\<lambda>d. [None])\<rparr>"

definition ex_ctrl_msg :: json where
  "ex_ctrl_msg =
     JsObj [(''operation'', JsStr ''add-device''), (''time'', JsStr ''2023-01-01T00:00:00.000Z''),
            (''new'', JsObj [(''networkAddr'', JsStr ''addr1'')])]"

definition ex_dldata_msg :: json where
  "ex_dldata_msg =
     JsObj [(''dataId'', JsStr ''1''), (''pub'', JsStr ''2023-01-01T00:00:00.000Z''),
            (''expiresIn'', JsInt 1000), (''networkAddr'', JsStr ''addr1''),
            (''data'', JsStr ''01'')]"

section \<open>Auxiliary lemmas\<close>

lemma endsWith_append: "endsWith (p @ n) n"
  by (simp add: endsWith_def)

lemma map_of_map_set: "map_of (map_set kvs k v) k = Some v"
  by (induction kvs) auto

lemma MqttQueue_new_fields:
  "MqttQueue_new opts c = Inr (q, c1) \<Longrightarrow>
     mq_isRecv q = q_isRecv opts \<and> \<not> mq_msgHandler q \<and> mq_status q = Closed
     \<and> mq_name q = q_name opts \<and> mq_broadcast q = q_broadcast opts
     \<and> mq_reliable q = q_reliable opts \<and> \<not> mq_connProcessing q
     \<and> mq_sharedPrefix q = stored_sharedPrefix (q_sharedPrefix opts)"
  by (auto simp: MqttQueue_new_def split: if_splits)

lemma AmqpQueue_new_fields:
  "AmqpQueue_new opts c = Inr (q, c1) \<Longrightarrow>
     aq_isRecv q = q_isRecv opts \<and> \<not> aq_msgHandler q \<and> aq_status q = Closed
     \<and> aq_name q = q_name opts"
  by (auto simp: AmqpQueue_new_def split: if_splits)

lemma QueuePattern_name: "QueuePattern_test ''name''"
  by (simp add: QueuePattern_test_def name_char_def)

section \<open>The connection pool\<close>

text \<open>
  Claim C1. \<^verbatim>\<open>removeConnection(pool, uri, n, ack)\<close> decrements the entry's
  reference count by \<open>n\<close>, and removes the entry, clears the listeners and closes the
  connection only when the count reaches zero; while the count is positive the shared
  connection is left open and unchanged.

  The source decrements and deletes as said, but clears the listeners and closes the
  connection outside the test of the count. With two managers on one connection (count 8,
  eight status listeners), releasing the four references of one manager leaves the entry
  in the pool with count 4, and the connection it holds closed, without a raw connection
  and without listeners.
\<close>

theorem removeConnection_closes_shared_connection:
  "fst (removeConnection ex_pool ''amqp://localhost/'' 4 None) ''amqp://localhost/'' =
     Some \<lparr>conn = AmqpConn \<lparr>amqp_status = Closed, amqp_conn = False, amqp_listeners = 0\<rparr>,
           count = 4\<rparr>"
  by (simp add: removeConnection_def ex_pool_def AmqpConnection_closeRun_def
      AmqpConnection_close_def AmqpConnection_onEnd_def Let_def)

section \<open>The data-queue factory\<close>

text \<open>
  Claim C2. The factory rejects \<^verbatim>\<open>prefetch = 0\<close> like every other value outside
  1..65535, and does not replace it by the default.

  The validator of the source tests \<^verbatim>\<open>opts.prefetch < 0\<close>: zero passes, and
  \<^verbatim>\<open>opts.prefetch || DEF_PREFETCH\<close> then replaces it by 100. On the options of
  the repository's own test of manual options the four queues of a network manager are
  created, each with prefetch 100.
\<close>

theorem newDataQueues_prefetch_zero_counterexample:
  "created (newDataQueues ex_conn ex_opts ''broker.network'' True) =
     [(''broker.network.unit_code.code_network.uldata'', JInt 100),
      (''broker.network.unit_code.code_network.dldata'', JInt 100),
      (''broker.network.unit_code.code_network.dldata-result'', JInt 100),
      (''broker.network.unit_code.code_network.ctrl'', JInt 100)]"
  by (simp add: created_def newDataQueues_def ex_conn_def ex_opts_def bad_nonempty_string_def
      js_or_def Queue_new_if_def AmqpQueue_new_def QueuePattern_test_def name_char_def
      DEF_PREFETCH_def DEF_PERSISTENT_def AmqpConnection_new_def)

text \<open>
  Claim C2, as amended. The factory fails for every \<^verbatim>\<open>prefetch\<close> that is neither
  \<^verbatim>\<open>undefined\<close> nor an integer from 0 to 65535 (so for 65536 and for \<open>-1\<close>);
  \<^verbatim>\<open>prefetch = 0\<close> is accepted and gives exactly the result of an absent
  \<^verbatim>\<open>prefetch\<close>, the default of 100.
\<close>

theorem newDataQueues_prefetch:
  "(opts_prefetch opts \<noteq> JUndefined
      \<and> (\<forall>n. opts_prefetch opts = JInt n \<longrightarrow> n < 0 \<or> 65535 < n)
      \<longrightarrow> isl (newDataQueues c opts prefix isNetwork))
   \<and> newDataQueues c (opts\<lparr>opts_prefetch := JInt 0\<rparr>) prefix isNetwork
       = newDataQueues c (opts\<lparr>opts_prefetch := JUndefined\<rparr>) prefix isNetwork"
proof -
  have "bad_opts_prefetch (opts_prefetch opts)"
    if "opts_prefetch opts \<noteq> JUndefined"
      and "\<forall>n. opts_prefetch opts = JInt n \<longrightarrow> n < 0 \<or> 65535 < n"
    using that by (cases "opts_prefetch opts") auto
  then show ?thesis
    by (auto simp: newDataQueues_def js_or_def)
qed

theorem newDataQueues_prefetch_witness:
  "isl (newDataQueues ex_conn (ex_opts\<lparr>opts_prefetch := JInt 65536\<rparr>) ''broker.network'' True)
   \<and> created (newDataQueues ex_conn (ex_opts\<lparr>opts_prefetch := JUndefined\<rparr>) ''broker.network'' True)
       = created (newDataQueues ex_conn (ex_opts\<lparr>opts_prefetch := JInt 0\<rparr>) ''broker.network'' True)"
  using newDataQueues_prefetch [where opts = "ex_opts\<lparr>opts_prefetch := JInt 65536\<rparr>"
      and c = ex_conn and prefix = "''broker.network''" and isNetwork = True]
    newDataQueues_prefetch [where opts = ex_opts and c = ex_conn
      and prefix = "''broker.network''" and isNetwork = True]
  by simp

section \<open>Closing a connection\<close>

text \<open>
  What a close does in general: with a raw connection the state ends Closed, without one
  it is left as it was; a callback that is supplied is called exactly once either way.
\<close>

lemma connection_close_outcome:
  "(amqp_conn a \<longrightarrow> amqp_status (fst (AmqpConnection_closeRun a cb err)) = Closed
        \<and> callbacks (snd (AmqpConnection_closeRun a cb err)) = (if cb then [err] else []))
   \<and> (\<not> amqp_conn a \<longrightarrow> fst (AmqpConnection_closeRun a cb err) = a
        \<and> callbacks (snd (AmqpConnection_closeRun a cb err)) = (if cb then [None] else []))
   \<and> (mqtt_conn m \<longrightarrow> mqtt_status (fst (MqttConnection_closeRun m cb err)) = Closed
        \<and> callbacks (snd (MqttConnection_closeRun m cb err)) = (if cb then [err] else []))
   \<and> (\<not> mqtt_conn m \<longrightarrow> fst (MqttConnection_closeRun m cb err) = m
        \<and> callbacks (snd (MqttConnection_closeRun m cb err)) = (if cb then [None] else []))"
  by (simp add: AmqpConnection_closeRun_def AmqpConnection_close_def AmqpConnection_onEnd_def
      MqttConnection_closeRun_def MqttConnection_close_def MqttConnection_onEnd_def)

text \<open>
  An MQTT connection holds its client from \<^verbatim>\<open>connect()\<close> on, so a close while it
  is Connecting ends Closed.
\<close>

lemma MqttConnection_close_while_connecting:
  "mqtt_status (fst (MqttConnection_connect MqttConnection_new)) = Connecting
   \<and> mqtt_status
       (fst (MqttConnection_closeRun (fst (MqttConnection_connect MqttConnection_new)) True None))
     = Closed"
  by (simp add: MqttConnection_closeRun_def MqttConnection_close_def MqttConnection_onEnd_def
      MqttConnection_connect_def MqttConnection_new_def)

text \<open>
  Claim C3. In every state of an AMQP or MQTT connection, \<^verbatim>\<open>close()\<close> drives the
  state to Closed, and a callback that is supplied is called exactly once.

  \<^verbatim>\<open>close\<close> returns early when there is no raw connection. An AMQP connection
  has none between \<^verbatim>\<open>connect()\<close> and the end of the dial: closed there, it calls
  back once with \<^verbatim>\<open>null\<close> and stays Connecting, and it becomes Connected when the
  dial succeeds.
\<close>

theorem AmqpConnection_close_while_dialing:
  "AmqpConnection_closeRun (fst (AmqpConnection_connect AmqpConnection_new)) True None
     = (\<lparr>amqp_status = Connecting, amqp_conn = False, amqp_listeners = 0\<rparr>, [Callback None])
   \<and> AmqpConnection_onDial
       (fst (AmqpConnection_closeRun (fst (AmqpConnection_connect AmqpConnection_new)) True None))
       None
     = (\<lparr>amqp_status = Connected, amqp_conn = True, amqp_listeners = 0\<rparr>, [EmitStatus Connected])"
  by (simp add: AmqpConnection_closeRun_def AmqpConnection_close_def AmqpConnection_connect_def
      AmqpConnection_new_def AmqpConnection_onDial_def)

section \<open>The manager's status\<close>










lemma put_put_queue: "put_queue (put_queue mgr r q) r q' = put_queue mgr r q'"
  by (cases r) simp_all

















subsection \<open>The application manager\<close>

lemma as_application_network [simp]: "as_application (as_network a) = a"
  by (simp add: as_application_def as_network_def)

lemma as_network_application [simp]: "as_network (as_application m) = m"
  by (simp add: as_application_def as_network_def)

lemma as_network_status [simp]: "nm_status (as_network a) = am_status a"
  by (simp add: as_network_def)

lemma as_application_status [simp]: "am_status (as_application m) = nm_status m"
  by (simp add: as_application_def)














subsection \<open>The claim\<close>




section \<open>Message routing\<close>

lemma settlements_settle: "settlements (map (settle q) xs) = map (settle q) xs"
proof (induction xs)
  case Nil
  show ?case by simp
next
  case (Cons x xs)
  then show ?case by (cases x) simp_all
qed

lemma handler_calls_settle: "handler_calls (map (settle q) xs) = []"
proof (induction xs)
  case Nil
  show ?case by simp
next
  case (Cons x xs)
  then show ?case by (cases x) simp_all
qed

text \<open>
  What the handler does where it does not raise: a payload that fails to parse is acked
  on the queue that delivered it and no user handler is called; a parsed object or array
  whose fields the runtime accepts calls the one handler of its queue, and each
  completion that handler reports settles the message, with a nack for an error and an
  ack otherwise.
\<close>

lemma message_routing_settles:
  "gmqMsgHandler mgr h date_ok bufferFrom_ok queue None = Inr [Ack (queue_name queue)]
   \<and> (queue_name queue = queue_name (nm_dldata mgr) \<and> is_object data
        \<and> date_ok (json_prop data ''pub'') \<and> bufferFrom_ok (json_prop data ''data'') \<longrightarrow>
       (\<exists>es. gmqMsgHandler mgr h date_ok bufferFrom_ok queue (Some data) = Inr es
          \<and> handler_calls es = [CallOnDlData data]
          \<and> settlements es = map (settle (queue_name (nm_dldata mgr))) (onDlData h data)))
   \<and> (queue_name queue \<noteq> queue_name (nm_dldata mgr)
        \<and> queue_name queue = queue_name (nm_ctrl mgr) \<and> is_object data
        \<and> date_ok (json_prop data ''time'') \<longrightarrow>
       (\<exists>es. gmqMsgHandler mgr h date_ok bufferFrom_ok queue (Some data) = Inr es
          \<and> handler_calls es = [CallOnCtrl data]
          \<and> settlements es = map (settle (queue_name (nm_ctrl mgr))) (onCtrl h data)))"
  by (simp add: gmqMsgHandler_def settlements_settle handler_calls_settle)

text \<open>
  The application manager converts the properties of an uplink message in the same way,
  outside the \<^verbatim>\<open>try\<close>: the payload \<^verbatim>\<open>null\<close> on its uldata queue raises the
  TypeError as well.
\<close>

lemma ApplicationMgr_null_payload:
  "ApplicationMgr_gmqMsgHandler ex_app_mgr handler date_ok bufferFrom_ok (am_uldata ex_app_mgr)
     (Some JsNull) = Inl TypeError"
  by (simp add: ApplicationMgr_gmqMsgHandler_def ex_app_mgr_def ex_queue_def)

text \<open>
  Claim C5. For every inbound message: when the payload fails JSON parsing the message is
  acked and no user handler is called; otherwise exactly one user handler is called, and
  the message is nacked when the handler's completion reports an error and acked when it
  reports success; each message is settled exactly once.

  Only \<^verbatim>\<open>JSON.parse\<close> is inside the \<^verbatim>\<open>try\<close> whose \<^verbatim>\<open>catch\<close> acks and
  drops the message. A payload that parses need not be an object: the four characters
  \<^verbatim>\<open>null\<close> parse to \<^verbatim>\<open>null\<close>, on which the first assignment of either branch
  raises a TypeError. Whatever the user's handlers and the runtime's \<^verbatim>\<open>Date\<close> and
  \<^verbatim>\<open>Buffer.from\<close> do, no handler is called and the message is neither acked nor
  nacked, on the ctrl queue and on the dldata queue.
\<close>

theorem null_payload_unsettled:
  "gmqMsgHandler ex_mgr handler date_ok bufferFrom_ok (nm_ctrl ex_mgr) (Some JsNull)
     = Inl TypeError
   \<and> gmqMsgHandler ex_mgr handler date_ok bufferFrom_ok (nm_dldata ex_mgr) (Some JsNull)
     = Inl TypeError"
  by (simp add: gmqMsgHandler_def ex_mgr_def ex_queue_def)

section \<open>Queue operations\<close>

text \<open>
  Claim C6. For every receiver queue on which \<^verbatim>\<open>setMsgHandler\<close> has not been
  called, \<^verbatim>\<open>connect()\<close> fails with the NoMsgHandler error and the queue does not
  start connecting.

  For a queue of either engine that is a receiver and holds no message handler, in any
  state and whatever the state of its connection, \<^verbatim>\<open>connect()\<close> throws
  \<^verbatim>\<open>Error(Errors.NoMsgHandler)\<close>; the throw is the first statement, so nothing
  is assigned, emitted or registered. A queue as its constructor returns it holds no
  handler, so this is the outcome for every newly constructed receiver.
\<close>

theorem connect_without_handler:
  "(mq_isRecv q \<and> \<not> mq_msgHandler q
      \<longrightarrow> MqttQueue_connect q c = Inl (Error Errors_NoMsgHandler))
   \<and> (aq_isRecv a \<and> \<not> aq_msgHandler a
      \<longrightarrow> AmqpQueue_connect a = Inl (Error Errors_NoMsgHandler))
   \<and> (q_isRecv opts \<and> MqttQueue_new opts mc = Inr (q, mc')
      \<longrightarrow> MqttQueue_connect q c = Inl (Error Errors_NoMsgHandler))
   \<and> (q_isRecv opts \<and> AmqpQueue_new opts ac = Inr (a, ac')
      \<longrightarrow> AmqpQueue_connect a = Inl (Error Errors_NoMsgHandler))"
  using MqttQueue_new_fields[of opts mc q mc'] AmqpQueue_new_fields[of opts ac a ac']
  by (auto simp: MqttQueue_connect_def AmqpQueue_connect_def)

theorem connect_without_handler_witness:
  "q_isRecv sendError_opts
   \<and> (case MqttQueue_new sendError_opts MqttConnection_new of
         Inl e \<Rightarrow> False
       | Inr (q, c1) \<Rightarrow> MqttQueue_connect q connected_mqtt = Inl (Error ''no message handler''))
   \<and> (case AmqpQueue_new sendError_opts AmqpConnection_new of
         Inl e \<Rightarrow> False
       | Inr (a, a1) \<Rightarrow> AmqpQueue_connect a = Inl (Error ''no message handler''))"
proof -
  obtain q c1 where m: "MqttQueue_new sendError_opts MqttConnection_new = Inr (q, c1)"
    by (simp add: MqttQueue_new_def sendError_opts_def QueuePattern_name)
  obtain a a1 where am: "AmqpQueue_new sendError_opts AmqpConnection_new = Inr (a, a1)"
    by (simp add: AmqpQueue_new_def sendError_opts_def QueuePattern_name)
  have r: "q_isRecv sendError_opts"
    by (simp add: sendError_opts_def)
  show ?thesis
    using connect_without_handler [where opts = sendError_opts and q = q and c = connected_mqtt
        and mc = MqttConnection_new and mc' = c1 and a = a and ac = AmqpConnection_new
        and ac' = a1]
      m am r
    by (simp add: Errors_NoMsgHandler_def)
qed

text \<open>
  Claim C7. \<^verbatim>\<open>sendMsg(payload, ack)\<close> fails with NotConnected whenever the
  queue's status is not Connected, and with QueueIsReceiver whenever the queue is a
  receiver; a send succeeds only on a Connected sender queue.

  The status is tested first: a receiver that is not Connected fails with NotConnected,
  not with QueueIsReceiver.
\<close>

theorem sendMsg_receiver_counterexample:
  "mq_isRecv (ex_queue ''name'' True Closed)
   \<and> MqttQueue_sendMsg (ex_queue ''name'' True Closed) MqttConnection_new ''1''
       = Inr [QCallback (Some (Error ''not connected''))]
   \<and> MqttQueue_sendMsg (ex_queue ''name'' True Closed) MqttConnection_new ''1''
       \<noteq> Inr [QCallback (Some (Error ''this queue is a receiver''))]
   \<and> aq_isRecv (ex_amqp_queue True Closed)
   \<and> AmqpQueue_sendMsg (ex_amqp_queue True Closed) ''1''
       = Inr [QCallback (Some (Error ''not connected''))]
   \<and> AmqpQueue_sendMsg (ex_amqp_queue True Closed) ''1''
       \<noteq> Inr [QCallback (Some (Error ''this queue is a receiver''))]"
  by (simp add: MqttQueue_sendMsg_def AmqpQueue_sendMsg_def ex_queue_def ex_amqp_queue_def
      Errors_NotConnected_def)

text \<open>
  Claim C7, as amended. For a queue of either engine and every payload,
  \<^verbatim>\<open>sendMsg\<close> fails with NotConnected whenever the status is not Connected,
  receiver or not, and with QueueIsReceiver whenever the queue is a receiver whose status
  is Connected; the payload is published only on a Connected sender queue, and is
  published on every Connected sender that holds its raw connection or channel.
\<close>

theorem sendMsg_outcome:
  "(mq_status q \<noteq> Connected
      \<longrightarrow> MqttQueue_sendMsg q c payload = Inr [QCallback (Some (Error Errors_NotConnected))])
   \<and> (mq_status q = Connected \<and> mq_isRecv q
      \<longrightarrow> MqttQueue_sendMsg q c payload = Inr [QCallback (Some (Error Errors_QueueIsReceiver))])
   \<and> (published (MqttQueue_sendMsg q c payload)
      \<longrightarrow> mq_status q = Connected \<and> \<not> mq_isRecv q)
   \<and> (mq_status q = Connected \<and> \<not> mq_isRecv q \<and> mqtt_conn c
      \<longrightarrow> MqttQueue_sendMsg q c payload
          = Inr [QPublish (MqttQueue_topic q) payload (if mq_reliable q then 1 else 0)])
   \<and> (aq_status a \<noteq> Connected
      \<longrightarrow> AmqpQueue_sendMsg a payload = Inr [QCallback (Some (Error Errors_NotConnected))])
   \<and> (aq_status a = Connected \<and> aq_isRecv a
      \<longrightarrow> AmqpQueue_sendMsg a payload = Inr [QCallback (Some (Error Errors_QueueIsReceiver))])
   \<and> (published (AmqpQueue_sendMsg a payload)
      \<longrightarrow> aq_status a = Connected \<and> \<not> aq_isRecv a)
   \<and> (aq_status a = Connected \<and> \<not> aq_isRecv a \<and> aq_channel a
      \<longrightarrow> published (AmqpQueue_sendMsg a payload))"
  by (auto simp: MqttQueue_sendMsg_def AmqpQueue_sendMsg_def Let_def split: if_splits)

theorem sendMsg_outcome_witness:
  "MqttQueue_sendMsg (ex_queue ''name'' True Connected) connected_mqtt ''1''
     = Inr [QCallback (Some (Error ''this queue is a receiver''))]
   \<and> MqttQueue_sendMsg (ex_queue ''name'' False Connected) connected_mqtt ''1''
     = Inr [QPublish ''name'' ''1'' 1]
   \<and> MqttQueue_sendMsg (ex_queue ''name'' False Connecting) connected_mqtt ''1''
     = Inr [QCallback (Some (Error ''not connected''))]
   \<and> AmqpQueue_sendMsg (ex_amqp_queue True Connected) ''1''
     = Inr [QCallback (Some (Error ''this queue is a receiver''))]
   \<and> published (AmqpQueue_sendMsg (ex_amqp_queue False Connected) ''1'')
   \<and> AmqpQueue_sendMsg (ex_amqp_queue False Closing) ''1''
     = Inr [QCallback (Some (Error ''not connected''))]"
  using sendMsg_outcome [where q = "ex_queue ''name'' True Connected" and c = connected_mqtt
      and a = "ex_amqp_queue True Connected" and payload = "''1''"]
    sendMsg_outcome [where q = "ex_queue ''name'' False Connected" and c = connected_mqtt
      and a = "ex_amqp_queue False Connected" and payload = "''1''"]
    sendMsg_outcome [where q = "ex_queue ''name'' False Connecting" and c = connected_mqtt
      and a = "ex_amqp_queue False Closing" and payload = "''1''"]
  by (simp add: ex_queue_def ex_amqp_queue_def connected_mqtt_def MqttQueue_topic_def
      Errors_NotConnected_def Errors_QueueIsReceiver_def)

section \<open>The MQTT topic\<close>

text \<open>
  Claim C8. For every MqttQueue, \<^verbatim>\<open>topic()\<close> is the shared prefix followed by the
  name when the queue is a unicast receiver (\<^verbatim>\<open>isRecv\<close> and not
  \<^verbatim>\<open>broadcast\<close>), and the name in every other case (senders, and broadcast
  receivers).

  The concatenation is that of the template literal: with a shared prefix \<open>p\<close> the
  topic is \<open>p\<close> followed by the name.
\<close>

theorem MqttQueue_topic_cases:
  "(mq_isRecv q \<and> \<not> mq_broadcast q \<and> mq_sharedPrefix q = Some p
      \<longrightarrow> MqttQueue_topic q = p @ mq_name q)
   \<and> (mq_isRecv q \<and> \<not> mq_broadcast q
      \<longrightarrow> MqttQueue_topic q = template_string (mq_sharedPrefix q) @ mq_name q)
   \<and> (\<not> mq_isRecv q \<longrightarrow> MqttQueue_topic q = mq_name q)
   \<and> (mq_broadcast q \<longrightarrow> MqttQueue_topic q = mq_name q)"
  by (simp add: MqttQueue_topic_def)

theorem MqttQueue_topic_cases_witness:
  "MqttQueue_topic (ex_queue ''name'' True Closed) = ''$share/general-mq/name''
   \<and> MqttQueue_topic (ex_queue ''name'' False Closed) = ''name''
   \<and> MqttQueue_topic ((ex_queue ''name'' True Closed)\<lparr>mq_broadcast := True\<rparr>) = ''name''"
  using MqttQueue_topic_cases [of "ex_queue ''name'' True Closed" "''$share/general-mq/''"]
    MqttQueue_topic_cases [of "ex_queue ''name'' False Closed" "''$share/general-mq/''"]
    MqttQueue_topic_cases [of "(ex_queue ''name'' True Closed)\<lparr>mq_broadcast := True\<rparr>"
      "''$share/general-mq/''"]
  by (simp add: ex_queue_def)

text \<open>
  Claim C9. An MqttQueue may be constructed as a unicast receiver with
  \<^verbatim>\<open>sharedPrefix\<close> left undefined: the constructor accepts this, and
  \<^verbatim>\<open>topic()\<close> is the text \<^verbatim>\<open>undefined\<close> followed by the queue name, so
  \<^verbatim>\<open>connect()\<close> registers a packet handler and subscribes for a topic that begins
  with \<^verbatim>\<open>undefined\<close>, rather than failing or falling back to the bare name.

  For options with a name of the queue pattern, \<^verbatim>\<open>isRecv\<close>, no
  \<^verbatim>\<open>broadcast\<close>, no \<^verbatim>\<open>sharedPrefix\<close> and an acceptable
  \<^verbatim>\<open>reconnectMillis\<close>: the constructor returns a queue; its topic is
  \<^verbatim>\<open>undefined\<close> followed by the name; once a message handler is set,
  \<^verbatim>\<open>connect()\<close> on any connection succeeds and leaves under the queue's name a
  packet handler with that topic, and on a Connected connection it emits Connecting and
  subscribes to that topic.
\<close>

theorem undefined_sharedPrefix_topic:
  assumes name: "QueuePattern_test (q_name opts)"
    and recv: "q_isRecv opts" and uni: "\<not> q_broadcast opts"
    and undef: "q_sharedPrefix opts = JUndefined"
    and rec: "\<not> bad_reconnectMillis (q_reconnectMillis opts)"
  shows "\<exists>q c1 q1. MqttQueue_new opts c = Inr (q, c1)
      \<and> MqttQueue_topic q = ''undefined'' @ q_name opts
      \<and> MqttQueue_setMsgHandler q True = Inr q1
      \<and> (\<exists>q2 c3 es. MqttQueue_connect q1 c2 = Inr (q2, c3, es)
            \<and> map_of (packetHandlers c3) (q_name opts)
                = Some \<lparr>ph_topic = ''undefined'' @ q_name opts,
                        ph_qos = (if q_reliable opts then 1 else 0)\<rparr>
            \<and> (mqtt_status c2 = Connected \<and> mqtt_conn c2 \<longrightarrow>
                 es = [QEmitStatus Connecting,
                       QSubscribe (''undefined'' @ q_name opts)
                         (if q_reliable opts then 1 else 0)]))"
proof -
  obtain q c1 where new: "MqttQueue_new opts c = Inr (q, c1)"
    using name undef rec by (simp add: MqttQueue_new_def)
  note f = MqttQueue_new_fields[OF new]
  have topic: "MqttQueue_topic q = ''undefined'' @ q_name opts"
    using f recv uni undef by (simp add: MqttQueue_topic_def)
  define q1 where "q1 = q\<lparr>mq_msgHandler := True\<rparr>"
  have set: "MqttQueue_setMsgHandler q True = Inr q1"
    by (simp add: MqttQueue_setMsgHandler_def q1_def)
  have topic1: "MqttQueue_topic q1 = ''undefined'' @ q_name opts"
    using f recv uni undef by (simp add: MqttQueue_topic_def q1_def)
  have add: "addPacketHandler c2 (mq_name q1) (MqttQueue_topic q1) (mq_reliable q1) =
      Inr (c2\<lparr>packetHandlers := map_set (packetHandlers c2) (q_name opts)
                \<lparr>ph_topic = ''undefined'' @ q_name opts,
                 ph_qos = (if q_reliable opts then 1 else 0)\<rparr>\<rparr>)"
    using f name unfolding topic1
    by (simp add: addPacketHandler_def q1_def endsWith_append del: append.simps)
  have "\<exists>q2 c3 es. MqttQueue_connect q1 c2 = Inr (q2, c3, es)
            \<and> map_of (packetHandlers c3) (q_name opts)
                = Some \<lparr>ph_topic = ''undefined'' @ q_name opts,
                        ph_qos = (if q_reliable opts then 1 else 0)\<rparr>
            \<and> (mqtt_status c2 = Connected \<and> mqtt_conn c2 \<longrightarrow>
                 es = [QEmitStatus Connecting,
                       QSubscribe (''undefined'' @ q_name opts)
                         (if q_reliable opts then 1 else 0)])"
    using f recv uni undef add
    by (simp add: MqttQueue_connect_def MqttQueue_innerConnect_def q1_def map_of_map_set
        MqttQueue_topic_def split: prod.splits del: append.simps)
  then show ?thesis using new topic set by blast
qed

theorem undefined_sharedPrefix_topic_witness:
  "\<exists>q c1 q1 q2 c3.
      MqttQueue_new sendError_opts MqttConnection_new = Inr (q, c1)
      \<and> MqttQueue_topic q = ''undefinedname''
      \<and> MqttQueue_setMsgHandler q True = Inr q1
      \<and> MqttQueue_connect q1 connected_mqtt
          = Inr (q2, c3, [QEmitStatus Connecting, QSubscribe ''undefinedname'' 0])
      \<and> map_of (packetHandlers c3) ''name'' = Some \<lparr>ph_topic = ''undefinedname'', ph_qos = 0\<rparr>"
proof -
  have h: "QueuePattern_test (q_name sendError_opts)" "q_isRecv sendError_opts"
    "\<not> q_broadcast sendError_opts" "q_sharedPrefix sendError_opts = JUndefined"
    "\<not> bad_reconnectMillis (q_reconnectMillis sendError_opts)"
    by (simp_all add: sendError_opts_def QueuePattern_name)
  have c: "mqtt_status connected_mqtt = Connected \<and> mqtt_conn connected_mqtt"
    by (simp add: connected_mqtt_def)
  have n: "q_name sendError_opts = ''name''" "\<not> q_reliable sendError_opts"
    by (simp_all add: sendError_opts_def)
  show ?thesis
    using undefined_sharedPrefix_topic [OF h, of MqttConnection_new connected_mqtt] c n
    by auto
qed

section \<open>The queue statuses of the network manager\<close>

text \<open>
  Claim C10. \<^verbatim>\<open>NetworkMgr.mqStatus()\<close> reports the field \<^verbatim>\<open>dldataResp\<close>
  as Closed in every state of the manager (the network manager has no dldata-resp queue),
  and the fields \<^verbatim>\<open>uldata\<close>, \<^verbatim>\<open>dldata\<close>, \<^verbatim>\<open>dldataResult\<close> and
  \<^verbatim>\<open>ctrl\<close> as the current statuses of its four queues.
\<close>

theorem mqStatus_fields:
  "st_dldataResp (mqStatus mgr) = Closed
   \<and> st_uldata (mqStatus mgr) = queue_status (nm_uldata mgr)
   \<and> st_dldata (mqStatus mgr) = queue_status (nm_dldata mgr)
   \<and> st_dldataResult (mqStatus mgr) = queue_status (nm_dldataResult mgr)
   \<and> st_ctrl (mqStatus mgr) = queue_status (nm_ctrl mgr)"
  by (simp add: mqStatus_def)

end
